theory Spec2Isabelle
  imports Complex_Main
begin

section \<open>Gesture interpreter: data model\<close>

text \<open>
  The embedding follows \<^verbatim>\<open>gestures.js\<close> (the enhanced \<^verbatim>\<open>initHandTracking\<close>)
  and the calibration key handler of \<^verbatim>\<open>main.js\<close>. JavaScript numbers are read as
  real numbers: \<^verbatim>\<open>Math.hypot\<close> and \<^verbatim>\<open>Math.sqrt\<close> are the exact Euclidean norm and
  rounding, NaN and infinities are outside the model. Writes to the DOM status line are
  not part of the gesture state and are left out; whether the status element exists is
  kept, because one read behind it can throw.
\<close>

record landmark =
  lm_x :: real
  lm_y :: real

record vec2 =
  vx :: real
  vy :: real

record handedness =
  score :: real
  label :: string

record results =
  multiHandLandmarks :: "landmark list list"
  multiHandedness :: "handedness list"

datatype gesture = GNone | Fist | Pointing | Peace | Three | Open_hand

record finger_states =
  thumb :: bool
  index :: bool
  middle :: bool
  ring :: bool
  pinky :: bool

record pinch_details =
  distance :: real
  threshold :: real
  confidence :: real
  handednessLabel :: "string option"

record gesture_data =
  g_type :: gesture
  g_confidence :: real

record pinch_data =
  isPinching :: bool
  p_distance :: real
  p_threshold :: real
  p_confidence :: real
  isCustomThreshold :: "bool option"

record history_entry =
  h_position :: vec2
  h_openness :: real
  h_pinch :: bool
  h_timestamp :: real

record gesture_state =
  pinch :: bool
  openness :: real
  position :: vec2
  gestureType :: gesture
  gestureConfidence :: real
  handVelocity :: vec2
  fingerStates :: finger_states
  pinchDetails :: "pinch_details option"

text \<open>
  The interpreter's whole state: the shared output record, the variables captured by the
  \<^verbatim>\<open>onResults\<close> closure, and \<^verbatim>\<open>window.customPinchThreshold\<close> (\<open>None\<close> while it is
  undefined).
\<close>

record interp =
  state :: gesture_state
  gestureHistory :: "history_entry list"
  lastPinchTime :: real
  lastGestureTime :: real
  customPinchThreshold :: "real option"
  statusElement :: bool

datatype outcome = Returned | Threw

section \<open>Helper functions of the recogniser\<close>

definition GESTURE_HISTORY_LENGTH :: nat where
  "GESTURE_HISTORY_LENGTH = 5"

definition gestureSmoothing :: real where
  "gestureSmoothing = 0.8"

definition lerp :: "real \<Rightarrow> real \<Rightarrow> real \<Rightarrow> real" where
  "lerp start end' factor = start + (end' - start) * factor"

definition hypot :: "real \<Rightarrow> real \<Rightarrow> real" where
  "hypot a b = sqrt (a\<^sup>2 + b\<^sup>2)"

text \<open>
  The functions below read fixed landmark indices up to 20. Their only caller is
  \<open>onResults\<close>, past its guard \<^verbatim>\<open>landmarks.length < 21\<close>, so the reads are in range
  wherever the functions are used.
\<close>

definition updateFingerStates :: "landmark list \<Rightarrow> finger_states \<Rightarrow> finger_states" where
  "updateFingerStates landmarks fs =
     (let thumbTip = landmarks ! 4; thumbBase = landmarks ! 2;
          fs1 = fs\<lparr>thumb := hypot (lm_x thumbTip - lm_x thumbBase) (lm_y thumbTip - lm_y thumbBase) > 0.1\<rparr>;
          indexTip = landmarks ! 8; indexBase = landmarks ! 5;
          fs2 = fs1\<lparr>index := hypot (lm_x indexTip - lm_x indexBase) (lm_y indexTip - lm_y indexBase) > 0.15\<rparr>;
          middleTip = landmarks ! 12; middleBase = landmarks ! 9;
          fs3 = fs2\<lparr>middle := hypot (lm_x middleTip - lm_x middleBase) (lm_y middleTip - lm_y middleBase) > 0.15\<rparr>;
          ringTip = landmarks ! 16; ringBase = landmarks ! 13;
          fs4 = fs3\<lparr>ring := hypot (lm_x ringTip - lm_x ringBase) (lm_y ringTip - lm_y ringBase) > 0.15\<rparr>;
          pinkyTip = landmarks ! 20; pinkyBase = landmarks ! 17
      in fs4\<lparr>pinky := hypot (lm_x pinkyTip - lm_x pinkyBase) (lm_y pinkyTip - lm_y pinkyBase) > 0.15\<rparr>)"

text \<open>\<^verbatim>\<open>Object.values(fingerStates).filter(state => state).length\<close>\<close>

definition extendedFingers :: "finger_states \<Rightarrow> nat" where
  "extendedFingers fs =
     length (filter (\<lambda>s. s) [thumb fs, index fs, middle fs, ring fs, pinky fs])"

definition recognizeAdvancedGestures :: "landmark list \<Rightarrow> finger_states \<Rightarrow> gesture_data" where
  "recognizeAdvancedGestures landmarks fs =
     (if extendedFingers fs = 0 then \<lparr>g_type = Fist, g_confidence = 0.9\<rparr>
      else if extendedFingers fs = 1 \<and> index fs then \<lparr>g_type = Pointing, g_confidence = 0.95\<rparr>
      else if extendedFingers fs = 2 \<and> index fs \<and> middle fs then \<lparr>g_type = Peace, g_confidence = 0.9\<rparr>
      else if extendedFingers fs = 5 then \<lparr>g_type = Open_hand, g_confidence = 0.85\<rparr>
      else if extendedFingers fs = 3 \<and> index fs \<and> middle fs \<and> ring fs
        then \<lparr>g_type = Three, g_confidence = 0.85\<rparr>
      else \<lparr>g_type = Open_hand, g_confidence = 0.8\<rparr>)"

text \<open>
  \<^verbatim>\<open>window.customPinchThreshold || adaptiveThreshold\<close>: an undefined or zero override is
  falsy and gives way to the adaptive threshold.
\<close>

definition truthy :: "real option \<Rightarrow> bool" where
  "truthy v = (case v of None \<Rightarrow> False | Some c \<Rightarrow> c \<noteq> 0)"

definition palmWidth :: "landmark list \<Rightarrow> real" where
  "palmWidth landmarks =
     hypot (lm_x (landmarks ! 5) - lm_x (landmarks ! 17)) (lm_y (landmarks ! 5) - lm_y (landmarks ! 17))"

definition adaptiveThreshold :: "landmark list \<Rightarrow> real" where
  "adaptiveThreshold landmarks = 0.045 * max 0.8 (min 1.2 (palmWidth landmarks * 3))"

definition finalThreshold :: "real option \<Rightarrow> landmark list \<Rightarrow> real" where
  "finalThreshold custom landmarks =
     (case custom of
        None \<Rightarrow> adaptiveThreshold landmarks
      | Some c \<Rightarrow> if c \<noteq> 0 then c else adaptiveThreshold landmarks)"

definition pinchDistance :: "landmark list \<Rightarrow> real" where
  "pinchDistance landmarks =
     sqrt ((lm_x (landmarks ! 4) - lm_x (landmarks ! 8))\<^sup>2 + (lm_y (landmarks ! 4) - lm_y (landmarks ! 8))\<^sup>2)"

definition recentPinches :: "history_entry list \<Rightarrow> nat" where
  "recentPinches h = length (filter h_pinch h)"

definition sustainedPinch :: "history_entry list \<Rightarrow> bool" where
  "sustainedPinch h = (length h \<ge> 3 \<and> list_all h_pinch (drop (length h - 3) h))"

definition detectEnhancedPinch ::
  "real option \<Rightarrow> landmark list \<Rightarrow> history_entry list \<Rightarrow> pinch_data" where
  "detectEnhancedPinch custom landmarks h =
     (if length landmarks \<le> 4 \<or> length landmarks \<le> 8
      then \<lparr>isPinching = False, p_distance = 1, p_threshold = 0.045, p_confidence = 0,
            isCustomThreshold = None\<rparr>
      else
        let dist' = pinchDistance landmarks;
            thr = finalThreshold custom landmarks;
            isTouching = dist' < thr;
            conf = max 0 (1 - dist' / (thr * 2));
            stabilityWeight = min 0.3 (real (recentPinches h) * 0.1);
            sustainedWeight = (if sustainedPinch h then 0.2 else 0)
        in \<lparr>isPinching = isTouching, p_distance = dist', p_threshold = thr,
            p_confidence = min 1 (conf + stabilityWeight + sustainedWeight),
            isCustomThreshold = Some (truthy custom)\<rparr>)"

definition calculateHandOpenness :: "landmark list \<Rightarrow> finger_states \<Rightarrow> real" where
  "calculateHandOpenness landmarks fs =
     (let palm = landmarks ! 0; middleTip = landmarks ! 12;
          baseOpenness = min 1 (hypot (lm_x palm - lm_x middleTip) (lm_y palm - lm_y middleTip) * 2);
          fingerFactor = real (extendedFingers fs) / 5
      in min 1 ((baseOpenness + fingerFactor) / 2))"

section \<open>Hand selection\<close>

text \<open>\<^verbatim>\<open>results.multiHandedness[i]?.score || 0.5\<close>\<close>

definition handConfidence :: "handedness list \<Rightarrow> nat \<Rightarrow> real" where
  "handConfidence hs i =
     (if i < length hs \<and> score (hs ! i) \<noteq> 0 then score (hs ! i) else 0.5)"

definition bestHandStep :: "handedness list \<Rightarrow> nat \<Rightarrow> nat \<times> real \<Rightarrow> nat \<times> real" where
  "bestHandStep hs i b =
     (if handConfidence hs i > snd b then (i, handConfidence hs i) else b)"

definition bestHandIndex :: "results \<Rightarrow> nat" where
  "bestHandIndex res =
     fst (fold (bestHandStep (multiHandedness res)) [0..<length (multiHandLandmarks res)] (0, 0))"

section \<open>The tracking callback\<close>

text \<open>
  The record \<^verbatim>\<open>main.js\<close> creates. Its \<^verbatim>\<open>fingerStates\<close> is the empty object there,
  which no function reads before \<^verbatim>\<open>initHandTracking\<close> replaces it; it stands here as
  the five flags all false.
\<close>

definition initialGestureState :: gesture_state where
  "initialGestureState =
     \<lparr>pinch = False, openness = 0, position = \<lparr>vx = 0, vy = 0\<rparr>, gestureType = GNone,
      gestureConfidence = 0, handVelocity = \<lparr>vx = 0, vy = 0\<rparr>,
      fingerStates = \<lparr>thumb = False, index = False, middle = False, ring = False, pinky = False\<rparr>,
      pinchDetails = None\<rparr>"

definition initHandTracking :: "bool \<Rightarrow> real option \<Rightarrow> gesture_state \<Rightarrow> interp" where
  "initHandTracking status custom st =
     \<lparr>state = st\<lparr>gestureType := GNone, gestureConfidence := 0,
                  handVelocity := \<lparr>vx = 0, vy = 0\<rparr>,
                  fingerStates := \<lparr>thumb = False, index = False, middle = False,
                                   ring = False, pinky = False\<rparr>,
                  pinchDetails := Some \<lparr>distance = 0, threshold = 0, confidence = 0,
                                        handednessLabel = None\<rparr>\<rparr>,
      gestureHistory = [], lastPinchTime = 0, lastGestureTime = 0,
      customPinchThreshold = custom, statusElement = status\<rparr>"

text \<open>\<^verbatim>\<open>handedness?.label || 'Unknown'\<close>\<close>

definition handednessLabelOf :: "handedness list \<Rightarrow> nat \<Rightarrow> string" where
  "handednessLabelOf hs i =
     (if i < length hs \<and> label (hs ! i) \<noteq> [] then label (hs ! i) else ''Unknown'')"

text \<open>\<^verbatim>\<open>gestureHistory.push(e); if (gestureHistory.length > 5) gestureHistory.shift()\<close>\<close>

definition pushHistory :: "history_entry \<Rightarrow> history_entry list \<Rightarrow> history_entry list" where
  "pushHistory e h =
     (let h' = h @ [e] in if length h' > GESTURE_HISTORY_LENGTH then tl h' else h')"

text \<open>
  The part of the callback that runs on a validated landmark set (source lines from
  \<^verbatim>\<open>prevPosition\<close> to \<^verbatim>\<open>lastGestureTime = currentTime\<close>).
\<close>

definition processHand ::
  "real \<Rightarrow> landmark list \<Rightarrow> handedness list \<Rightarrow> nat \<Rightarrow> interp \<Rightarrow> interp" where
  "processHand currentTime landmarks hs best it =
     (let st = state it;
          prevPosition = position st;
          fs = updateFingerStates landmarks (fingerStates st);
          gestureData = recognizeAdvancedGestures landmarks fs;
          conf = lerp (gestureConfidence st) (g_confidence gestureData) 0.1;
          pinchData = detectEnhancedPinch (customPinchThreshold it) landmarks (gestureHistory it);
          details = \<lparr>distance = p_distance pinchData, threshold = p_threshold pinchData,
                     confidence = p_confidence pinchData,
                     handednessLabel = Some (handednessLabelOf hs best)\<rparr>;
          lastPinch = (if isPinching pinchData \<and> currentTime - lastPinchTime it > 800
                       then currentTime else lastPinchTime it);
          open' = calculateHandOpenness landmarks fs;
          rawX = (lm_x (landmarks ! 0) - 0.5) * 2;
          rawY = - (lm_y (landmarks ! 0) - 0.5) * 2;
          pos = \<lparr>vx = lerp (vx prevPosition) rawX gestureSmoothing,
                 vy = lerp (vy prevPosition) rawY gestureSmoothing\<rparr>;
          deltaTime = max 1 (currentTime - lastGestureTime it);
          vel = \<lparr>vx = (vx pos - vx prevPosition) / deltaTime * 1000,
                 vy = (vy pos - vy prevPosition) / deltaTime * 1000\<rparr>;
          entry = \<lparr>h_position = pos, h_openness = open', h_pinch = isPinching pinchData,
                   h_timestamp = currentTime\<rparr>
      in it\<lparr>state := st\<lparr>pinch := isPinching pinchData, openness := open', position := pos,
                          gestureType := g_type gestureData, gestureConfidence := conf,
                          handVelocity := vel, fingerStates := fs,
                          pinchDetails := Some details\<rparr>,
            gestureHistory := pushHistory entry (gestureHistory it),
            lastPinchTime := lastPinch,
            lastGestureTime := currentTime\<rparr>)"

text \<open>
  The callback. It returns the way it left (\<open>Threw\<close> for the \<^verbatim>\<open>TypeError\<close> of reading
  \<^verbatim>\<open>handedness.label\<close> from an undefined handedness entry while the status element
  exists, which happens after every state update of the frame) and the state it left
  behind.
\<close>

definition onResults :: "real \<Rightarrow> results \<Rightarrow> interp \<Rightarrow> outcome \<times> interp" where
  "onResults currentTime res it =
     (if length (multiHandLandmarks res) = 0
      then (Returned, it\<lparr>state := (state it)\<lparr>gestureType := GNone, gestureConfidence := 0\<rparr>\<rparr>)
      else
        let best = bestHandIndex res in
        if \<not> best < length (multiHandLandmarks res) \<or> length (multiHandLandmarks res ! best) < 21
        then (Returned, it)
        else
          let it' = processHand currentTime (multiHandLandmarks res ! best) (multiHandedness res) best it
          in (if statusElement it \<and> \<not> best < length (multiHandedness res) then Threw else Returned, it'))"

text \<open>The key handler's case \<^verbatim>\<open>'c'\<close> of \<^verbatim>\<open>main.js\<close>.\<close>

definition calibrate :: "interp \<Rightarrow> interp" where
  "calibrate it =
     (case pinchDetails (state it) of
        None \<Rightarrow> it
      | Some d \<Rightarrow>
          if distance d > 0 then it\<lparr>customPinchThreshold := Some (distance d * 1.2)\<rparr> else it)"

text \<open>A frame is the clock reading of the callback and the tracker's results.\<close>

type_synonym frame = "real \<times> results"

definition stepFrame :: "interp \<Rightarrow> frame \<Rightarrow> interp" where
  "stepFrame it f = snd (onResults (fst f) (snd f) it)"

definition runFrames :: "interp \<Rightarrow> frame list \<Rightarrow> interp" where
  "runFrames it fs = foldl stepFrame it fs"

text \<open>
  What can happen to the interpreter after start-up: the tracker delivers a frame, or the
  user presses the calibration key.
\<close>

datatype action = Frame frame | Calibrate

fun act :: "interp \<Rightarrow> action \<Rightarrow> interp" where
  "act it (Frame f) = stepFrame it f"
| "act it Calibrate = calibrate it"

definition runActions :: "interp \<Rightarrow> action list \<Rightarrow> interp" where
  "runActions it as = foldl act it as"

text \<open>The hand the callback selects, and the two ways a frame is turned away.\<close>

definition selectedHand :: "results \<Rightarrow> landmark list" where
  "selectedHand res = multiHandLandmarks res ! bestHandIndex res"

definition validFrame :: "frame \<Rightarrow> bool" where
  "validFrame f = (multiHandLandmarks (snd f) \<noteq> [] \<and> length (selectedHand (snd f)) \<ge> 21)"

definition emptyFrame :: "frame \<Rightarrow> bool" where
  "emptyFrame f = (multiHandLandmarks (snd f) = [])"

definition shortFrame :: "frame \<Rightarrow> bool" where
  "shortFrame f = (multiHandLandmarks (snd f) \<noteq> [] \<and> length (selectedHand (snd f)) < 21)"

section \<open>Notions of the specification\<close>

text \<open>The "no hand" output state of the specification.\<close>

definition noHandState :: "gesture_state \<Rightarrow> bool" where
  "noHandState s = (gestureType s = GNone \<and> gestureConfidence s = 0 \<and> pinch s = False)"

text \<open>\<open>clamp v lo hi\<close> as the specification uses it.\<close>

definition clamp :: "real \<Rightarrow> real \<Rightarrow> real \<Rightarrow> real" where
  "clamp v lo hi = (if v < lo then lo else if hi < v then hi else v)"

text \<open>
  The override as the calibrate action can leave it: absent, or a positive number
  (1.2 times a positive distance).
\<close>

definition overrideOK :: "real option \<Rightarrow> bool" where
  "overrideOK custom = (case custom of None \<Rightarrow> True | Some c \<Rightarrow> 0 < c)"

text \<open>The threshold in force: the override when there is one, else the adaptive one.\<close>

definition effectiveThreshold :: "real option \<Rightarrow> landmark list \<Rightarrow> real" where
  "effectiveThreshold custom landmarks =
     (case custom of
        None \<Rightarrow> clamp (palmWidth landmarks * 3) 0.8 1.2 * 0.045
      | Some c \<Rightarrow> c)"

text \<open>The per-frame summary pushed to the history, read off the state after the frame.\<close>

definition summaryOf :: "interp \<Rightarrow> history_entry" where
  "summaryOf it =
     \<lparr>h_position = position (state it), h_openness = openness (state it),
      h_pinch = pinch (state it), h_timestamp = lastGestureTime it\<rparr>"

text \<open>The three clamping bounds on the output state.\<close>

definition outputsInRange :: "gesture_state \<Rightarrow> bool" where
  "outputsInRange s =
     (0 \<le> openness s \<and> openness s \<le> 1 \<and>
      0 \<le> gestureConfidence s \<and> gestureConfidence s \<le> 1 \<and>
      (case pinchDetails s of None \<Rightarrow> False | Some d \<Rightarrow> 0 \<le> confidence d \<and> confidence d \<le> 1))"

text \<open>"The last 3 history entries were all pinching", entry by entry.\<close>

definition lastThreePinching :: "history_entry list \<Rightarrow> bool" where
  "lastThreePinching h =
     (3 \<le> length h \<and> h_pinch (h ! (length h - 1)) \<and> h_pinch (h ! (length h - 2)) \<and>
      h_pinch (h ! (length h - 3)))"

text \<open>Every distance the callback stores is a Euclidean norm, so never negative.\<close>

definition distanceOK :: "interp \<Rightarrow> bool" where
  "distanceOK it = (case pinchDetails (state it) of None \<Rightarrow> True | Some d \<Rightarrow> 0 \<le> distance d)"

text \<open>The summaries of a run of frames, one per frame, in frame order.\<close>

fun summaries :: "interp \<Rightarrow> frame list \<Rightarrow> history_entry list" where
  "summaries it [] = []"
| "summaries it (f # fs) = summaryOf (stepFrame it f) # summaries (stepFrame it f) fs"

text \<open>The last \<open>n\<close> elements of a list.\<close>

definition lastN :: "nat \<Rightarrow> 'a list \<Rightarrow> 'a list" where
  "lastN n xs = drop (length xs - n) xs"

section \<open>Sample inputs\<close>

definition pt :: "real \<Rightarrow> real \<Rightarrow> landmark" where
  "pt a b = \<lparr>lm_x = a, lm_y = b\<rparr>"

text \<open>All 21 points on one spot, but the thumb tip \<open>d\<close> above it and the wrist at \<open>w\<close>.\<close>

definition pinchHand :: "real \<Rightarrow> real \<Rightarrow> landmark list" where
  "pinchHand d w = (replicate 21 (pt 0.5 0.5))[4 := pt 0.5 (0.5 + d), 0 := pt w 0.5]"

text \<open>
  A hand with chosen digits stretched: every base on the line \<open>y = 0.5\<close>, a stretched
  tip 0.3 above its base, a folded tip on its base.
\<close>

definition tipAt :: "bool \<Rightarrow> real \<Rightarrow> landmark" where
  "tipAt ext a = pt a (if ext then 0.2 else 0.5)"

definition fingerHand :: "bool \<Rightarrow> bool \<Rightarrow> bool \<Rightarrow> bool \<Rightarrow> bool \<Rightarrow> landmark list" where
  "fingerHand t i m r p =
     [pt 0.5 0.8, pt 0.4 0.7, pt 0.4 0.5, pt 0.4 0.5, tipAt t 0.4,
      pt 0.4 0.5, pt 0.4 0.5, pt 0.4 0.5, tipAt i 0.4,
      pt 0.5 0.5, pt 0.5 0.5, pt 0.5 0.5, tipAt m 0.5,
      pt 0.6 0.5, pt 0.6 0.5, pt 0.6 0.5, tipAt r 0.6,
      pt 0.7 0.5, pt 0.7 0.5, pt 0.7 0.5, tipAt p 0.7]"

definition rightHand :: handedness where
  "rightHand = \<lparr>score = 0.9, label = ''Right''\<rparr>"

definition oneHand :: "landmark list \<Rightarrow> results" where
  "oneHand lms = \<lparr>multiHandLandmarks = [lms], multiHandedness = [rightHand]\<rparr>"

definition noHands :: results where
  "noHands = \<lparr>multiHandLandmarks = [], multiHandedness = []\<rparr>"

definition startInterp :: interp where
  "startInterp = initHandTracking True None initialGestureState"

definition shortHand :: "landmark list" where
  "shortHand = replicate 20 (pt 0.5 0.5)"

text \<open>The interpreter after one frame showing a pinch 0.03 wide.\<close>

definition pinchedInterp :: interp where
  "pinchedInterp = stepFrame startInterp (0, oneHand (pinchHand 0.03 0.5))"

definition threeHand :: "landmark list" where
  "threeHand = fingerHand False True True True False"

definition peaceHand :: "landmark list" where
  "peaceHand = fingerHand False True True False False"

definition openHand :: "landmark list" where
  "openHand = fingerHand True True True True True"

definition thumbHand :: "landmark list" where
  "thumbHand = fingerHand True False False False False"

text \<open>The interpreter before \<^verbatim>\<open>initHandTracking\<close> has run: no pinch details yet.\<close>

definition rawInterp :: interp where
  "rawInterp =
     \<lparr>state = initialGestureState, gestureHistory = [], lastPinchTime = 0, lastGestureTime = 0,
      customPinchThreshold = None, statusElement = True\<rparr>"

definition sixFrames :: "frame list" where
  "sixFrames =
     [(0, oneHand (pinchHand 0.03 0.5)), (16, oneHand (pinchHand 0.03 0.5)),
      (32, oneHand (pinchHand 0.03 0.5)), (48, oneHand (pinchHand 0.03 0.5)),
      (64, oneHand (pinchHand 0.03 0.5)), (80, oneHand (pinchHand 0.03 0.5))]"

section \<open>Basic facts\<close>

lemma hypot_nonneg: "0 \<le> hypot a b"
  by (simp add: hypot_def)

lemma hypot_zero_left: "hypot 0 b = \<bar>b\<bar>"
  by (simp add: hypot_def)

lemma hypot_zero_right: "hypot a 0 = \<bar>a\<bar>"
  by (simp add: hypot_def)

lemma pinchDistance_hypot:
  "pinchDistance lms = hypot (lm_x (lms ! 4) - lm_x (lms ! 8)) (lm_y (lms ! 4) - lm_y (lms ! 8))"
  by (simp add: pinchDistance_def hypot_def)

lemma pinchDistance_nonneg: "0 \<le> pinchDistance lms"
  by (simp add: pinchDistance_def)

lemma clamp_max_min: "max lo (min hi v) = clamp v lo hi" if "lo \<le> hi"
  using that by (auto simp: clamp_def)

lemma adaptiveThreshold_clamp:
  "adaptiveThreshold lms = clamp (palmWidth lms * 3) 0.8 1.2 * 0.045"
  by (simp add: adaptiveThreshold_def clamp_def max_def min_def)

lemma adaptiveThreshold_pos: "0 < adaptiveThreshold lms"
  by (simp add: adaptiveThreshold_def max_def min_def)

lemma bestHand_fold_range:
  "fst (fold (bestHandStep hs) is b) \<in> insert (fst b) (set is)"
proof (induction "is" arbitrary: b)
  case Nil
  show ?case by simp
next
  case (Cons i "is")
  have "fst (bestHandStep hs i b) = fst b \<or> fst (bestHandStep hs i b) = i"
    by (simp add: bestHandStep_def)
  with Cons [of "bestHandStep hs i b"] show ?case by auto
qed

lemma bestHandIndex_less:
  "multiHandLandmarks res \<noteq> [] \<Longrightarrow> bestHandIndex res < length (multiHandLandmarks res)"
  using bestHand_fold_range [of "multiHandedness res" "[0..<length (multiHandLandmarks res)]" "(0, 0)"]
  by (auto simp: bestHandIndex_def)

lemma length_pinchHand: "length (pinchHand d w) = 21"
  by (simp add: pinchHand_def)

lemma length_fingerHand: "length (fingerHand t i m r p) = 21"
  by (simp add: fingerHand_def)

lemma bestHandIndex_oneHand: "bestHandIndex (oneHand lms) = 0"
  by (simp add: bestHandIndex_def oneHand_def bestHandStep_def handConfidence_def rightHand_def)

lemma updateFingerStates_fingerHand:
  "updateFingerStates (fingerHand t i m r p) fs =
     \<lparr>thumb = t, index = i, middle = m, ring = r, pinky = p\<rparr>"
  by (simp add: updateFingerStates_def fingerHand_def tipAt_def pt_def hypot_zero_left)

lemma updateFingerStates_pinchHand:
  "\<bar>d\<bar> \<le> 0.1 \<Longrightarrow> updateFingerStates (pinchHand d w) fs =
     \<lparr>thumb = False, index = False, middle = False, ring = False, pinky = False\<rparr>"
  by (simp add: updateFingerStates_def pinchHand_def pt_def hypot_zero_left)

lemma pinchDistance_pinchHand: "pinchDistance (pinchHand d w) = \<bar>d\<bar>"
  by (simp add: pinchDistance_hypot pinchHand_def pt_def hypot_zero_left)

lemma palmWidth_pinchHand: "palmWidth (pinchHand d w) = 0"
  by (simp add: palmWidth_def pinchHand_def pt_def hypot_zero_left)

lemma palmWidth_fingerHand: "palmWidth (fingerHand t i m r p) = 0.3"
  by (simp add: palmWidth_def fingerHand_def pt_def hypot_zero_right)

subsection \<open>The three branches of the callback\<close>

lemma onResults_empty:
  "multiHandLandmarks res = [] \<Longrightarrow>
   onResults t res it =
     (Returned, it\<lparr>state := (state it)\<lparr>gestureType := GNone, gestureConfidence := 0\<rparr>\<rparr>)"
  by (simp add: onResults_def)

lemma onResults_short:
  "multiHandLandmarks res \<noteq> [] \<Longrightarrow> length (selectedHand res) < 21 \<Longrightarrow>
   onResults t res it = (Returned, it)"
  by (simp add: onResults_def selectedHand_def Let_def)

lemma onResults_valid:
  "multiHandLandmarks res \<noteq> [] \<Longrightarrow> 21 \<le> length (selectedHand res) \<Longrightarrow>
   snd (onResults t res it) =
     processHand t (selectedHand res) (multiHandedness res) (bestHandIndex res) it"
  by (simp add: onResults_def selectedHand_def Let_def bestHandIndex_less)

lemma stepFrame_valid:
  "validFrame f \<Longrightarrow>
   stepFrame it f =
     processHand (fst f) (selectedHand (snd f)) (multiHandedness (snd f)) (bestHandIndex (snd f)) it"
  by (simp add: stepFrame_def validFrame_def onResults_valid)

lemma stepFrame_empty:
  "emptyFrame f \<Longrightarrow>
   stepFrame it f = it\<lparr>state := (state it)\<lparr>gestureType := GNone, gestureConfidence := 0\<rparr>\<rparr>"
  by (simp add: stepFrame_def emptyFrame_def onResults_empty)

lemma stepFrame_short: "shortFrame f \<Longrightarrow> stepFrame it f = it"
  by (simp add: stepFrame_def shortFrame_def onResults_short)

lemma frame_cases: "validFrame f \<or> emptyFrame f \<or> shortFrame f"
  by (auto simp: validFrame_def emptyFrame_def shortFrame_def)

subsection \<open>What a processed hand leaves in each field\<close>

lemma detectEnhancedPinch_valid:
  "21 \<le> length lms \<Longrightarrow>
   detectEnhancedPinch custom lms h =
     \<lparr>isPinching = pinchDistance lms < finalThreshold custom lms,
      p_distance = pinchDistance lms,
      p_threshold = finalThreshold custom lms,
      p_confidence =
        min 1 (max 0 (1 - pinchDistance lms / (finalThreshold custom lms * 2))
               + min 0.3 (real (recentPinches h) * 0.1)
               + (if sustainedPinch h then 0.2 else 0)),
      isCustomThreshold = Some (truthy custom)\<rparr>"
  by (simp add: detectEnhancedPinch_def Let_def)

lemma processHand_pinch:
  "21 \<le> length lms \<Longrightarrow>
   pinch (state (processHand t lms hs b it)) =
     (pinchDistance lms < finalThreshold (customPinchThreshold it) lms)"
  by (simp add: processHand_def Let_def detectEnhancedPinch_valid)

lemma processHand_pinchDetails:
  "21 \<le> length lms \<Longrightarrow>
   pinchDetails (state (processHand t lms hs b it)) =
     Some \<lparr>distance = pinchDistance lms,
           threshold = finalThreshold (customPinchThreshold it) lms,
           confidence =
             min 1 (max 0 (1 - pinchDistance lms / (finalThreshold (customPinchThreshold it) lms * 2))
                    + min 0.3 (real (recentPinches (gestureHistory it)) * 0.1)
                    + (if sustainedPinch (gestureHistory it) then 0.2 else 0)),
           handednessLabel = Some (handednessLabelOf hs b)\<rparr>"
  by (simp add: processHand_def Let_def detectEnhancedPinch_valid)

lemma processHand_fingerStates:
  "fingerStates (state (processHand t lms hs b it)) =
     updateFingerStates lms (fingerStates (state it))"
  by (simp add: processHand_def Let_def)

lemma processHand_gestureType:
  "gestureType (state (processHand t lms hs b it)) =
     g_type (recognizeAdvancedGestures lms (updateFingerStates lms (fingerStates (state it))))"
  by (simp add: processHand_def Let_def)

lemma processHand_gestureConfidence:
  "gestureConfidence (state (processHand t lms hs b it)) =
     lerp (gestureConfidence (state it))
       (g_confidence (recognizeAdvancedGestures lms (updateFingerStates lms (fingerStates (state it)))))
       0.1"
  by (simp add: processHand_def Let_def)

lemma processHand_openness:
  "openness (state (processHand t lms hs b it)) =
     calculateHandOpenness lms (updateFingerStates lms (fingerStates (state it)))"
  by (simp add: processHand_def Let_def)

lemma processHand_position:
  "position (state (processHand t lms hs b it)) =
     \<lparr>vx = lerp (vx (position (state it))) ((lm_x (lms ! 0) - 0.5) * 2) gestureSmoothing,
      vy = lerp (vy (position (state it))) (- (lm_y (lms ! 0) - 0.5) * 2) gestureSmoothing\<rparr>"
  by (simp add: processHand_def Let_def)

lemma processHand_handVelocity:
  "handVelocity (state (processHand t lms hs b it)) =
     \<lparr>vx = (vx (position (state (processHand t lms hs b it))) - vx (position (state it)))
             / max 1 (t - lastGestureTime it) * 1000,
      vy = (vy (position (state (processHand t lms hs b it))) - vy (position (state it)))
             / max 1 (t - lastGestureTime it) * 1000\<rparr>"
  by (simp add: processHand_def Let_def)

lemma processHand_lastGestureTime: "lastGestureTime (processHand t lms hs b it) = t"
  by (simp add: processHand_def Let_def)

lemma processHand_customPinchThreshold:
  "customPinchThreshold (processHand t lms hs b it) = customPinchThreshold it"
  by (simp add: processHand_def Let_def)

lemma processHand_statusElement:
  "statusElement (processHand t lms hs b it) = statusElement it"
  by (simp add: processHand_def Let_def)

lemma processHand_gestureHistory:
  "21 \<le> length lms \<Longrightarrow>
   gestureHistory (processHand t lms hs b it) =
     pushHistory (summaryOf (processHand t lms hs b it)) (gestureHistory it)"
  by (simp add: processHand_def Let_def summaryOf_def detectEnhancedPinch_valid)

subsection \<open>The sample frames evaluated\<close>

lemma selectedHand_oneHand: "selectedHand (oneHand lms) = lms"
  by (simp add: selectedHand_def bestHandIndex_oneHand) (simp add: oneHand_def)

lemma validFrame_oneHand: "21 \<le> length lms \<Longrightarrow> validFrame (t, oneHand lms)"
  by (simp add: validFrame_def selectedHand_oneHand) (simp add: oneHand_def)

lemma shortFrame_oneHand: "length lms < 21 \<Longrightarrow> shortFrame (t, oneHand lms)"
  by (simp add: shortFrame_def selectedHand_oneHand) (simp add: oneHand_def)

lemma stepFrame_oneHand:
  "21 \<le> length lms \<Longrightarrow> stepFrame it (t, oneHand lms) = processHand t lms [rightHand] 0 it"
  by (simp add: stepFrame_valid validFrame_oneHand selectedHand_oneHand bestHandIndex_oneHand)
     (simp add: oneHand_def)

lemma adaptiveThreshold_pinchHand: "adaptiveThreshold (pinchHand d w) = 0.036"
  by (simp add: adaptiveThreshold_def palmWidth_pinchHand)

lemma pinchedInterp_eq:
  "pinchedInterp = processHand 0 (pinchHand 0.03 0.5) [rightHand] 0 startInterp"
  by (simp add: pinchedInterp_def stepFrame_oneHand length_pinchHand)

lemma startInterp_custom: "customPinchThreshold startInterp = None"
  by (simp add: startInterp_def initHandTracking_def)

lemma pinchedInterp_pinch: "pinch (state pinchedInterp) = True"
  by (simp add: pinchedInterp_eq processHand_pinch length_pinchHand startInterp_custom
      finalThreshold_def adaptiveThreshold_pinchHand pinchDistance_pinchHand)

lemma extendedFingers_none:
  "extendedFingers \<lparr>thumb = False, index = False, middle = False, ring = False, pinky = False\<rparr> = 0"
  by (simp add: extendedFingers_def)

lemma pinchedInterp_gestureType: "gestureType (state pinchedInterp) = Fist"
  by (simp add: pinchedInterp_eq processHand_gestureType updateFingerStates_pinchHand
      recognizeAdvancedGestures_def extendedFingers_none)

lemma pinchedInterp_distance:
  "\<exists>d. pinchDetails (state pinchedInterp) = Some d \<and> distance d = 0.03"
  by (simp add: pinchedInterp_eq processHand_pinchDetails length_pinchHand pinchDistance_pinchHand)

section \<open>Frames without a usable hand\<close>

text \<open>
  C10: on a frame with an empty hand list only \<open>gestureType\<close> and \<open>gestureConfidence\<close> are
  written, to none and 0; pinch, position, openness, handVelocity, fingerStates and the
  pinch diagnostics keep their values. On a frame whose selected hand has fewer than 21
  points nothing is written at all: the interpreter is left exactly as it was.
\<close>

theorem rejected_frame_writes:
  "(multiHandLandmarks res = [] \<longrightarrow>
      snd (onResults t res it) =
        it\<lparr>state := (state it)\<lparr>gestureType := GNone, gestureConfidence := 0\<rparr>\<rparr> \<and>
      pinch (state (snd (onResults t res it))) = pinch (state it) \<and>
      position (state (snd (onResults t res it))) = position (state it) \<and>
      openness (state (snd (onResults t res it))) = openness (state it) \<and>
      handVelocity (state (snd (onResults t res it))) = handVelocity (state it) \<and>
      fingerStates (state (snd (onResults t res it))) = fingerStates (state it) \<and>
      pinchDetails (state (snd (onResults t res it))) = pinchDetails (state it)) \<and>
   (multiHandLandmarks res \<noteq> [] \<and> length (selectedHand res) < 21 \<longrightarrow>
      snd (onResults t res it) = it)"
  by (simp add: onResults_empty onResults_short)

theorem rejected_frame_writes_witness:
  "multiHandLandmarks noHands = [] \<and>
   gestureType (state (snd (onResults 16 noHands pinchedInterp))) = GNone \<and>
   pinch (state (snd (onResults 16 noHands pinchedInterp))) = True \<and>
   multiHandLandmarks (oneHand shortHand) \<noteq> [] \<and>
   length (selectedHand (oneHand shortHand)) < 21 \<and>
   gestureType (state (snd (onResults 16 (oneHand shortHand) pinchedInterp))) = Fist"
proof -
  have e: "multiHandLandmarks noHands = []"
    by (simp add: noHands_def)
  have s: "multiHandLandmarks (oneHand shortHand) \<noteq> [] \<and> length (selectedHand (oneHand shortHand)) < 21"
    by (simp add: selectedHand_oneHand shortHand_def) (simp add: oneHand_def)
  from e rejected_frame_writes [of noHands 16 pinchedInterp]
  have 1: "snd (onResults 16 noHands pinchedInterp) =
             pinchedInterp\<lparr>state := (state pinchedInterp)\<lparr>gestureType := GNone, gestureConfidence := 0\<rparr>\<rparr>"
    and 2: "pinch (state (snd (onResults 16 noHands pinchedInterp))) = pinch (state pinchedInterp)"
    by blast+
  from s rejected_frame_writes [of "oneHand shortHand" 16 pinchedInterp]
  have 3: "snd (onResults 16 (oneHand shortHand) pinchedInterp) = pinchedInterp"
    by blast
  show ?thesis
    using e s by (simp add: 1 2 3 pinchedInterp_pinch pinchedInterp_gestureType)
qed

text \<open>
  C1 as stated fails: after a pinching frame, an empty hand list leaves \<open>pinch\<close> true, and
  a 20-point hand leaves the gesture type of the frame before.
\<close>

theorem no_hand_state_counterexample:
  "emptyFrame (16, noHands) \<and>
   \<not> noHandState (state (snd (onResults 16 noHands pinchedInterp))) \<and>
   shortFrame (16, oneHand shortHand) \<and>
   \<not> noHandState (state (snd (onResults 16 (oneHand shortHand) pinchedInterp)))"
proof -
  have e: "emptyFrame (16, noHands)"
    by (simp add: emptyFrame_def noHands_def)
  have s: "shortFrame (16, oneHand shortHand)"
    by (simp add: shortFrame_oneHand shortHand_def)
  have 1: "snd (onResults 16 noHands pinchedInterp) = stepFrame pinchedInterp (16, noHands)"
    and 2: "snd (onResults 16 (oneHand shortHand) pinchedInterp) = stepFrame pinchedInterp (16, oneHand shortHand)"
    by (simp_all add: stepFrame_def)
  show ?thesis
    using e s
    by (simp add: 1 2 stepFrame_empty stepFrame_short noHandState_def
        pinchedInterp_pinch pinchedInterp_gestureType)
qed

text \<open>
  C1, amended: neither kind of frame throws. An empty hand list sets \<open>gestureType\<close> to
  none and \<open>gestureConfidence\<close> to 0 and leaves \<open>pinch\<close> as it was, so the output is the
  "no hand" state exactly when pinch was false before. A selected hand with fewer than 21
  points leaves the output state as it was, so the output is the "no hand" state exactly
  when it was that before.
\<close>

theorem no_hand_frames_amended:
  "(emptyFrame (t, res) \<longrightarrow>
      fst (onResults t res it) = Returned \<and>
      gestureType (state (snd (onResults t res it))) = GNone \<and>
      gestureConfidence (state (snd (onResults t res it))) = 0 \<and>
      pinch (state (snd (onResults t res it))) = pinch (state it) \<and>
      noHandState (state (snd (onResults t res it))) = (\<not> pinch (state it))) \<and>
   (shortFrame (t, res) \<longrightarrow>
      fst (onResults t res it) = Returned \<and>
      state (snd (onResults t res it)) = state it \<and>
      noHandState (state (snd (onResults t res it))) = noHandState (state it))"
  by (simp add: emptyFrame_def shortFrame_def onResults_empty onResults_short noHandState_def)

theorem no_hand_frames_amended_witness:
  "emptyFrame (5, noHands) \<and>
   fst (onResults 5 noHands startInterp) = Returned \<and>
   noHandState (state (snd (onResults 5 noHands startInterp))) \<and>
   shortFrame (5, oneHand shortHand) \<and>
   fst (onResults 5 (oneHand shortHand) startInterp) = Returned \<and>
   noHandState (state (snd (onResults 5 (oneHand shortHand) startInterp)))"
proof -
  have e: "emptyFrame (5, noHands)"
    by (simp add: emptyFrame_def noHands_def)
  have s: "shortFrame (5, oneHand shortHand)"
    by (simp add: shortFrame_oneHand shortHand_def)
  have p: "\<not> pinch (state startInterp)" and n: "noHandState (state startInterp)"
    by (simp_all add: startInterp_def initHandTracking_def initialGestureState_def noHandState_def)
  show ?thesis
    using e s p n no_hand_frames_amended [of 5 noHands startInterp]
      no_hand_frames_amended [of 5 "oneHand shortHand" startInterp]
    by simp
qed

section \<open>Adaptive pinch threshold\<close>

lemma finalThreshold_effective:
  "overrideOK custom \<Longrightarrow> finalThreshold custom lms = effectiveThreshold custom lms"
  by (cases custom)
     (simp_all add: finalThreshold_def effectiveThreshold_def overrideOK_def adaptiveThreshold_clamp)

lemma overrideOK_calibrate: "overrideOK (customPinchThreshold it) \<Longrightarrow> overrideOK (customPinchThreshold (calibrate it))"
  by (simp add: calibrate_def overrideOK_def split: option.splits)

lemma stepFrame_customPinchThreshold:
  "customPinchThreshold (stepFrame it f) = customPinchThreshold it"
  using frame_cases [of f]
  by (auto simp: stepFrame_valid stepFrame_empty stepFrame_short processHand_customPinchThreshold)

lemma overrideOK_initHandTracking: "overrideOK (customPinchThreshold (initHandTracking s None st))"
  by (simp add: initHandTracking_def overrideOK_def)

text \<open>
  C2: on a valid landmark set the adaptive threshold is
  \<open>clamp (palmWidth * 3) 0.8 1.2 * 0.045\<close>, with palmWidth the distance between landmarks 5
  and 17 (index and pinky metacarpal bases); an override that is set is the threshold in
  force, as it is; and pinch is reported iff the distance between thumb tip (4) and index
  tip (8) is strictly below the threshold in force. The override is taken as the calibrate
  action leaves it, absent or positive (a zero override would be falsy in
  \<^verbatim>\<open>customPinchThreshold || adaptiveThreshold\<close> and give way to the adaptive threshold).
\<close>

theorem adaptive_pinch_threshold:
  assumes "validFrame (t, res)" and "overrideOK (customPinchThreshold it)"
  shows "palmWidth (selectedHand res) =
           sqrt ((lm_x (selectedHand res ! 5) - lm_x (selectedHand res ! 17))\<^sup>2 +
                 (lm_y (selectedHand res ! 5) - lm_y (selectedHand res ! 17))\<^sup>2) \<and>
         adaptiveThreshold (selectedHand res) = clamp (palmWidth (selectedHand res) * 3) 0.8 1.2 * 0.045 \<and>
         (customPinchThreshold it = None \<longrightarrow>
            finalThreshold (customPinchThreshold it) (selectedHand res) =
              clamp (palmWidth (selectedHand res) * 3) 0.8 1.2 * 0.045) \<and>
         (\<forall>c. customPinchThreshold it = Some c \<longrightarrow>
            finalThreshold (customPinchThreshold it) (selectedHand res) = c) \<and>
         (\<exists>d. pinchDetails (state (snd (onResults t res it))) = Some d \<and>
              threshold d = finalThreshold (customPinchThreshold it) (selectedHand res)) \<and>
         pinch (state (snd (onResults t res it))) =
           (sqrt ((lm_x (selectedHand res ! 4) - lm_x (selectedHand res ! 8))\<^sup>2 +
                  (lm_y (selectedHand res ! 4) - lm_y (selectedHand res ! 8))\<^sup>2)
              < finalThreshold (customPinchThreshold it) (selectedHand res))"
proof -
  have v: "multiHandLandmarks res \<noteq> []" "21 \<le> length (selectedHand res)"
    using assms(1) by (simp_all add: validFrame_def)
  have eff: "finalThreshold (customPinchThreshold it) (selectedHand res) =
               effectiveThreshold (customPinchThreshold it) (selectedHand res)"
    using assms(2) by (rule finalThreshold_effective)
  have a: "palmWidth (selectedHand res) =
           sqrt ((lm_x (selectedHand res ! 5) - lm_x (selectedHand res ! 17))\<^sup>2 +
                 (lm_y (selectedHand res ! 5) - lm_y (selectedHand res ! 17))\<^sup>2)"
    by (simp add: palmWidth_def hypot_def)
  have b: "customPinchThreshold it = None \<longrightarrow>
            finalThreshold (customPinchThreshold it) (selectedHand res) =
              clamp (palmWidth (selectedHand res) * 3) 0.8 1.2 * 0.045"
    using eff by (auto simp: effectiveThreshold_def)
  have c: "\<forall>c. customPinchThreshold it = Some c \<longrightarrow>
            finalThreshold (customPinchThreshold it) (selectedHand res) = c"
    using eff by (auto simp: effectiveThreshold_def)
  have d: "\<exists>d. pinchDetails (state (snd (onResults t res it))) = Some d \<and>
              threshold d = finalThreshold (customPinchThreshold it) (selectedHand res)"
    using v by (simp add: onResults_valid processHand_pinchDetails)
  have e: "pinch (state (snd (onResults t res it))) =
           (sqrt ((lm_x (selectedHand res ! 4) - lm_x (selectedHand res ! 8))\<^sup>2 +
                  (lm_y (selectedHand res ! 4) - lm_y (selectedHand res ! 8))\<^sup>2)
              < finalThreshold (customPinchThreshold it) (selectedHand res))"
    using v by (simp add: onResults_valid processHand_pinch pinchDistance_def)
  from a adaptiveThreshold_clamp b c d e show ?thesis by blast
qed

lemma nth_thumbHand:
  "thumbHand ! 4 = pt 0.4 0.2" "thumbHand ! 8 = pt 0.4 0.5"
  by (simp_all add: thumbHand_def fingerHand_def tipAt_def)

theorem adaptive_pinch_threshold_witness:
  "validFrame (0, oneHand thumbHand) \<and> overrideOK (customPinchThreshold startInterp) \<and>
   adaptiveThreshold (selectedHand (oneHand thumbHand)) = 0.0405 \<and>
   pinch (state (snd (onResults 0 (oneHand thumbHand) startInterp))) = False"
proof -
  have v: "validFrame (0, oneHand thumbHand)"
    by (simp add: validFrame_oneHand thumbHand_def length_fingerHand)
  have k: "overrideOK (customPinchThreshold startInterp)"
    by (simp add: startInterp_custom overrideOK_def)
  have w: "palmWidth thumbHand = 0.3"
    by (simp add: thumbHand_def palmWidth_fingerHand)
  have d: "sqrt ((lm_x (thumbHand ! 4) - lm_x (thumbHand ! 8))\<^sup>2 +
                 (lm_y (thumbHand ! 4) - lm_y (thumbHand ! 8))\<^sup>2) = 0.3"
    using hypot_zero_left [of "0.2 - 0.5"] by (simp add: nth_thumbHand pt_def hypot_def)
  show ?thesis
    using v k adaptive_pinch_threshold [OF v k]
    by (simp add: selectedHand_oneHand w d startInterp_custom clamp_def)
qed

section \<open>Discrete classification\<close>

lemma onResults_gesture:
  "validFrame (t, res) \<Longrightarrow>
   gestureType (state (snd (onResults t res it))) =
     g_type (recognizeAdvancedGestures (selectedHand res)
       (updateFingerStates (selectedHand res) (fingerStates (state it)))) \<and>
   gestureConfidence (state (snd (onResults t res it))) =
     lerp (gestureConfidence (state it))
       (g_confidence (recognizeAdvancedGestures (selectedHand res)
         (updateFingerStates (selectedHand res) (fingerStates (state it))))) 0.1"
  by (simp add: validFrame_def onResults_valid processHand_gestureType processHand_gestureConfidence)

lemma recognize_peace:
  "index fs \<Longrightarrow> middle fs \<Longrightarrow> \<not> thumb fs \<Longrightarrow> \<not> ring fs \<Longrightarrow> \<not> pinky fs \<Longrightarrow>
   recognizeAdvancedGestures lms fs = \<lparr>g_type = Peace, g_confidence = 0.9\<rparr>"
  by (simp add: recognizeAdvancedGestures_def extendedFingers_def)

lemma recognize_all_five:
  "thumb fs \<Longrightarrow> index fs \<Longrightarrow> middle fs \<Longrightarrow> ring fs \<Longrightarrow> pinky fs \<Longrightarrow>
   recognizeAdvancedGestures lms fs = \<lparr>g_type = Open_hand, g_confidence = 0.85\<rparr>"
  by (simp add: recognizeAdvancedGestures_def extendedFingers_def)

lemma startInterp_fingerStates:
  "fingerStates (state startInterp) =
     \<lparr>thumb = False, index = False, middle = False, ring = False, pinky = False\<rparr>"
  by (simp add: startInterp_def initHandTracking_def)

lemma startInterp_gestureConfidence: "gestureConfidence (state startInterp) = 0"
  by (simp add: startInterp_def initHandTracking_def)

text \<open>
  C3 as stated fails: with index, middle and ring extended the classification is
  \<open>three\<close> with base confidence 0.85, not \<open>peace\<close>.
\<close>

theorem peace_counterexample:
  "validFrame (0, oneHand threeHand) \<and>
   index (updateFingerStates threeHand (fingerStates (state startInterp))) \<and>
   middle (updateFingerStates threeHand (fingerStates (state startInterp))) \<and>
   recognizeAdvancedGestures threeHand (updateFingerStates threeHand (fingerStates (state startInterp)))
     = \<lparr>g_type = Three, g_confidence = 0.85\<rparr> \<and>
   gestureType (state (snd (onResults 0 (oneHand threeHand) startInterp))) \<noteq> Peace"
proof -
  have v: "validFrame (0, oneHand threeHand)"
    by (simp add: validFrame_oneHand threeHand_def length_fingerHand)
  have f: "updateFingerStates threeHand (fingerStates (state startInterp)) =
             \<lparr>thumb = False, index = True, middle = True, ring = True, pinky = False\<rparr>"
    by (simp add: threeHand_def updateFingerStates_fingerHand)
  have r: "recognizeAdvancedGestures threeHand
             \<lparr>thumb = False, index = True, middle = True, ring = True, pinky = False\<rparr>
           = \<lparr>g_type = Three, g_confidence = 0.85\<rparr>"
    by (simp add: recognizeAdvancedGestures_def extendedFingers_def)
  show ?thesis
    using v by (simp add: onResults_gesture selectedHand_oneHand f r)
qed

text \<open>
  C3, amended: on a valid landmark set whose extension test marks the index and middle
  digits as extended and the thumb, ring and pinky digits as not extended, the
  classification is \<open>peace\<close> with base confidence 0.9; the callback reports that type and
  moves the confidence a tenth of the way towards 0.9.
\<close>

theorem peace_classification_amended:
  assumes "validFrame (t, res)"
    and "fs = updateFingerStates (selectedHand res) (fingerStates (state it))"
    and "index fs" and "middle fs" and "\<not> thumb fs" and "\<not> ring fs" and "\<not> pinky fs"
  shows "recognizeAdvancedGestures (selectedHand res) fs = \<lparr>g_type = Peace, g_confidence = 0.9\<rparr> \<and>
         gestureType (state (snd (onResults t res it))) = Peace \<and>
         gestureConfidence (state (snd (onResults t res it))) =
           gestureConfidence (state it) + 0.1 * (0.9 - gestureConfidence (state it))"
proof -
  have r: "recognizeAdvancedGestures (selectedHand res) fs = \<lparr>g_type = Peace, g_confidence = 0.9\<rparr>"
    using assms(3-7) by (rule recognize_peace)
  with onResults_gesture [OF assms(1), of it] assms(2) show ?thesis
    by (simp add: lerp_def)
qed

theorem peace_classification_amended_witness:
  "validFrame (0, oneHand peaceHand) \<and>
   updateFingerStates peaceHand (fingerStates (state startInterp)) =
     \<lparr>thumb = False, index = True, middle = True, ring = False, pinky = False\<rparr> \<and>
   gestureType (state (snd (onResults 0 (oneHand peaceHand) startInterp))) = Peace \<and>
   gestureConfidence (state (snd (onResults 0 (oneHand peaceHand) startInterp))) = 0.09"
proof -
  have v: "validFrame (0, oneHand peaceHand)"
    by (simp add: validFrame_oneHand peaceHand_def length_fingerHand)
  have f: "updateFingerStates peaceHand (fingerStates (state startInterp)) =
             \<lparr>thumb = False, index = True, middle = True, ring = False, pinky = False\<rparr>"
    by (simp add: peaceHand_def updateFingerStates_fingerHand)
  show ?thesis
    using v f
      peace_classification_amended [of 0 "oneHand peaceHand"
        "\<lparr>thumb = False, index = True, middle = True, ring = False, pinky = False\<rparr>" startInterp]
    by (simp add: selectedHand_oneHand startInterp_gestureConfidence)
qed

text \<open>
  C4: on a valid landmark set whose extension test marks all five digits as extended, the
  classification is \<open>open_hand\<close> with base confidence 0.85, and so neither \<open>three\<close> nor
  \<open>peace\<close>; the callback reports that type.
\<close>

theorem open_hand_classification:
  assumes "validFrame (t, res)"
    and "fs = updateFingerStates (selectedHand res) (fingerStates (state it))"
    and "thumb fs" and "index fs" and "middle fs" and "ring fs" and "pinky fs"
  shows "recognizeAdvancedGestures (selectedHand res) fs = \<lparr>g_type = Open_hand, g_confidence = 0.85\<rparr> \<and>
         gestureType (state (snd (onResults t res it))) = Open_hand \<and>
         gestureType (state (snd (onResults t res it))) \<noteq> Three \<and>
         gestureType (state (snd (onResults t res it))) \<noteq> Peace \<and>
         gestureConfidence (state (snd (onResults t res it))) =
           gestureConfidence (state it) + 0.1 * (0.85 - gestureConfidence (state it))"
proof -
  have r: "recognizeAdvancedGestures (selectedHand res) fs = \<lparr>g_type = Open_hand, g_confidence = 0.85\<rparr>"
    using assms(3-7) by (rule recognize_all_five)
  with onResults_gesture [OF assms(1), of it] assms(2) show ?thesis
    by (simp add: lerp_def)
qed

theorem open_hand_classification_witness:
  "validFrame (0, oneHand openHand) \<and>
   updateFingerStates openHand (fingerStates (state startInterp)) =
     \<lparr>thumb = True, index = True, middle = True, ring = True, pinky = True\<rparr> \<and>
   gestureType (state (snd (onResults 0 (oneHand openHand) startInterp))) = Open_hand \<and>
   gestureConfidence (state (snd (onResults 0 (oneHand openHand) startInterp))) = 0.085"
proof -
  have v: "validFrame (0, oneHand openHand)"
    by (simp add: validFrame_oneHand openHand_def length_fingerHand)
  have f: "updateFingerStates openHand (fingerStates (state startInterp)) =
             \<lparr>thumb = True, index = True, middle = True, ring = True, pinky = True\<rparr>"
    by (simp add: openHand_def updateFingerStates_fingerHand)
  show ?thesis
    using v f
      open_hand_classification [of 0 "oneHand openHand"
        "\<lparr>thumb = True, index = True, middle = True, ring = True, pinky = True\<rparr>" startInterp]
    by (simp add: selectedHand_oneHand startInterp_gestureConfidence)
qed

section \<open>Calibration\<close>

lemma calibrate_positive:
  "pinchDetails (state it) = Some d \<Longrightarrow> 0 < distance d \<Longrightarrow>
   calibrate it = it\<lparr>customPinchThreshold := Some (distance d * 1.2)\<rparr>"
  by (simp add: calibrate_def)

lemma calibrate_noop:
  "pinchDetails (state it) = None \<or> (\<exists>d. pinchDetails (state it) = Some d \<and> distance d = 0) \<Longrightarrow>
   calibrate it = it"
  by (auto simp: calibrate_def)

lemma calibrate_state: "state (calibrate it) = state it"
  by (simp add: calibrate_def split: option.splits)

lemma distanceOK_stepFrame: "distanceOK it \<Longrightarrow> distanceOK (stepFrame it f)"
  using frame_cases [of f]
  by (auto simp: distanceOK_def stepFrame_valid stepFrame_empty stepFrame_short validFrame_def
      processHand_pinchDetails pinchDistance_nonneg)

lemma distanceOK_initHandTracking: "distanceOK (initHandTracking s c st)"
  by (simp add: distanceOK_def initHandTracking_def)

lemma distanceOK_calibrate: "distanceOK it \<Longrightarrow> distanceOK (calibrate it)"
  by (simp add: distanceOK_def calibrate_state)

text \<open>
  Both conventions hold in every state that frames and calibrations can reach from a
  start without an override.
\<close>

lemma overrideOK_act:
  "overrideOK (customPinchThreshold it) \<Longrightarrow> overrideOK (customPinchThreshold (act it a))"
  by (cases a) (simp_all add: stepFrame_customPinchThreshold overrideOK_calibrate)

lemma overrideOK_runActions:
  "overrideOK (customPinchThreshold (runActions (initHandTracking s None st) as))"
proof -
  have "overrideOK (customPinchThreshold it) \<Longrightarrow>
        overrideOK (customPinchThreshold (foldl act it as))" for it
    by (induction as arbitrary: it) (simp_all add: overrideOK_act)
  then show ?thesis
    unfolding runActions_def using overrideOK_initHandTracking by blast
qed

lemma distanceOK_act: "distanceOK it \<Longrightarrow> distanceOK (act it a)"
  by (cases a) (simp_all add: distanceOK_stepFrame distanceOK_calibrate)

lemma distanceOK_runActions: "distanceOK (runActions (initHandTracking s c st) as)"
proof -
  have "distanceOK it \<Longrightarrow> distanceOK (foldl act it as)" for it
    by (induction as arbitrary: it) (simp_all add: distanceOK_act)
  then show ?thesis
    unfolding runActions_def using distanceOK_initHandTracking by blast
qed

text \<open>
  C5: calibrate, invoked while the stored pinch distance is known and nonzero (distances
  are never negative), sets the override to that distance times 1.2 and changes nothing
  else; a distance of 0.03 gives the override 0.036, and the next frame with a thumb-index
  distance of 0.034 reports pinch = true. Invoked with no pinch details, or with the
  distance 0, it leaves everything as it was.
\<close>

theorem calibrate_action:
  "(\<forall>d. pinchDetails (state it) = Some d \<and> 0 \<le> distance d \<and> distance d \<noteq> 0 \<longrightarrow>
        calibrate it = it\<lparr>customPinchThreshold := Some (distance d * 1.2)\<rparr>) \<and>
   (\<forall>d. pinchDetails (state it) = Some d \<and> distance d = 0.03 \<longrightarrow>
        customPinchThreshold (calibrate it) = Some 0.036 \<and>
        (validFrame (t, res) \<and> pinchDistance (selectedHand res) = 0.034 \<longrightarrow>
           pinch (state (snd (onResults t res (calibrate it)))) = True)) \<and>
   (pinchDetails (state it) = None \<or> (\<exists>d. pinchDetails (state it) = Some d \<and> distance d = 0) \<longrightarrow>
        calibrate it = it)"
proof -
  have a: "\<forall>d. pinchDetails (state it) = Some d \<and> 0 \<le> distance d \<and> distance d \<noteq> 0 \<longrightarrow>
        calibrate it = it\<lparr>customPinchThreshold := Some (distance d * 1.2)\<rparr>"
    by (simp add: calibrate_positive)
  have b: "customPinchThreshold (calibrate it) = Some 0.036 \<and>
        (validFrame (t, res) \<and> pinchDistance (selectedHand res) = 0.034 \<longrightarrow>
           pinch (state (snd (onResults t res (calibrate it)))) = True)"
    if d: "pinchDetails (state it) = Some d" "distance d = 0.03" for d
  proof -
    have c: "customPinchThreshold (calibrate it) = Some 0.036"
      using d by (simp add: calibrate_positive)
    then show ?thesis
      by (simp add: validFrame_def onResults_valid processHand_pinch finalThreshold_def)
  qed
  have c: "pinchDetails (state it) = None \<or> (\<exists>d. pinchDetails (state it) = Some d \<and> distance d = 0) \<longrightarrow>
        calibrate it = it"
    using calibrate_noop by blast
  from a b c show ?thesis by blast
qed

lemma pinchedInterp_details:
  "pinchDetails (state pinchedInterp) =
     Some \<lparr>distance = 0.03, threshold = 0.036, confidence = 7 / 12,
           handednessLabel = Some ''Right''\<rparr>"
  by (simp add: pinchedInterp_eq processHand_pinchDetails length_pinchHand pinchDistance_pinchHand
      startInterp_custom finalThreshold_def adaptiveThreshold_pinchHand)
     (simp add: startInterp_def initHandTracking_def recentPinches_def sustainedPinch_def
      handednessLabelOf_def rightHand_def)

theorem calibrate_action_witness:
  "customPinchThreshold (calibrate pinchedInterp) = Some 0.036 \<and>
   validFrame (16, oneHand (pinchHand 0.034 0.5)) \<and>
   pinchDistance (selectedHand (oneHand (pinchHand 0.034 0.5))) = 0.034 \<and>
   pinch (state (snd (onResults 16 (oneHand (pinchHand 0.034 0.5)) (calibrate pinchedInterp)))) = True \<and>
   pinchDetails (state rawInterp) = None \<and> calibrate rawInterp = rawInterp \<and>
   calibrate startInterp = startInterp"
proof -
  have v: "validFrame (16, oneHand (pinchHand 0.034 0.5))"
    by (simp add: validFrame_oneHand length_pinchHand)
  have p: "pinchDistance (selectedHand (oneHand (pinchHand 0.034 0.5))) = 0.034"
    by (simp add: selectedHand_oneHand pinchDistance_pinchHand)
  have r: "pinchDetails (state rawInterp) = None"
    by (simp add: rawInterp_def initialGestureState_def)
  have s: "\<exists>d. pinchDetails (state startInterp) = Some d \<and> distance d = 0"
    by (simp add: startInterp_def initHandTracking_def)
  have 1: "customPinchThreshold (calibrate pinchedInterp) = Some 0.036 \<and>
           pinch (state (snd (onResults 16 (oneHand (pinchHand 0.034 0.5)) (calibrate pinchedInterp)))) = True"
  proof -
    have d: "pinchDetails (state pinchedInterp) =
               Some \<lparr>distance = 0.03, threshold = 0.036, confidence = 7 / 12,
                     handednessLabel = Some ''Right''\<rparr> \<and>
             distance \<lparr>distance = 0.03, threshold = 0.036, confidence = 7 / 12,
                     handednessLabel = Some ''Right''\<rparr> = 0.03"
      by (simp add: pinchedInterp_details)
    from calibrate_action [of pinchedInterp 16 "oneHand (pinchHand 0.034 0.5)"] d v p
    show ?thesis by blast
  qed
  have 2: "calibrate rawInterp = rawInterp"
    using calibrate_action [of rawInterp] r by blast
  have 3: "calibrate startInterp = startInterp"
    using calibrate_action [of startInterp] s by blast
  from v p r 1 2 3 show ?thesis by blast
qed

section \<open>Pinch confidence\<close>

lemma sustainedPinch_lastThree: "sustainedPinch h = lastThreePinching h"
proof (cases "3 \<le> length h")
  case False
  then show ?thesis by (simp add: sustainedPinch_def lastThreePinching_def)
next
  case True
  define k where "k = length h - 3"
  have n: "length h = k + 3" using True by (simp add: k_def)
  have "list_all h_pinch (drop k h) = (\<forall>i<3. h_pinch (h ! (k + i)))"
    by (simp add: list_all_length n)
  also have "\<dots> = (h_pinch (h ! k) \<and> h_pinch (h ! (k + 1)) \<and> h_pinch (h ! (k + 2)))"
    by (auto simp: numeral_3_eq_3 less_Suc_eq numeral_2_eq_2)
  finally show ?thesis
    using True by (auto simp: sustainedPinch_def lastThreePinching_def n k_def [symmetric])
qed

text \<open>
  C6: on a valid landmark set the reported pinch confidence is
  \<open>min 1 (max 0 (1 - distance / (2 * threshold)) + min 0.3 (0.1 * pinches) + sustained)\<close>,
  with the threshold in force, \<open>pinches\<close> the number of history entries whose pinch flag is
  true, and \<open>sustained\<close> 0.2 when the history has at least 3 entries and its last 3 all
  have pinch true, else 0. The history is the one before the frame's own entry is pushed.
\<close>

theorem pinch_confidence_formula:
  assumes "validFrame (t, res)" and "overrideOK (customPinchThreshold it)"
  shows "\<exists>d. pinchDetails (state (snd (onResults t res it))) = Some d \<and>
           distance d = pinchDistance (selectedHand res) \<and>
           threshold d = effectiveThreshold (customPinchThreshold it) (selectedHand res) \<and>
           confidence d =
             min 1 (max 0 (1 - distance d / (2 * threshold d))
                    + min 0.3 (0.1 * real (length (filter h_pinch (gestureHistory it))))
                    + (if lastThreePinching (gestureHistory it) then 0.2 else 0))"
proof -
  have v: "multiHandLandmarks res \<noteq> []" "21 \<le> length (selectedHand res)"
    using assms(1) by (simp_all add: validFrame_def)
  have eff: "finalThreshold (customPinchThreshold it) (selectedHand res) =
               effectiveThreshold (customPinchThreshold it) (selectedHand res)"
    using assms(2) by (rule finalThreshold_effective)
  show ?thesis
    using v
    by (simp add: onResults_valid processHand_pinchDetails eff sustainedPinch_lastThree
        recentPinches_def mult.commute)
qed

lemma pinchedInterp_history: "gestureHistory pinchedInterp = [summaryOf pinchedInterp]"
  by (simp add: pinchedInterp_eq processHand_gestureHistory length_pinchHand)
     (simp add: startInterp_def initHandTracking_def pushHistory_def GESTURE_HISTORY_LENGTH_def)

lemma pinchedInterp_custom: "customPinchThreshold pinchedInterp = None"
  by (simp add: pinchedInterp_eq processHand_customPinchThreshold startInterp_custom)

theorem pinch_confidence_formula_witness:
  "validFrame (16, oneHand (pinchHand 0.03 0.5)) \<and> overrideOK (customPinchThreshold pinchedInterp) \<and>
   (\<exists>d. pinchDetails (state (snd (onResults 16 (oneHand (pinchHand 0.03 0.5)) pinchedInterp))) = Some d \<and>
        confidence d = 41 / 60)"
proof -
  have v: "validFrame (16, oneHand (pinchHand 0.03 0.5))"
    by (simp add: validFrame_oneHand length_pinchHand)
  have k: "overrideOK (customPinchThreshold pinchedInterp)"
    by (simp add: pinchedInterp_custom overrideOK_def)
  have h: "filter h_pinch (gestureHistory pinchedInterp) = [summaryOf pinchedInterp]"
    "\<not> lastThreePinching (gestureHistory pinchedInterp)"
    by (simp_all add: pinchedInterp_history summaryOf_def pinchedInterp_pinch lastThreePinching_def)
  have e: "effectiveThreshold None (pinchHand a w) = 0.036" for a w
    by (simp add: effectiveThreshold_def palmWidth_pinchHand clamp_def)
  have "\<exists>d. pinchDetails (state (snd (onResults 16 (oneHand (pinchHand 0.03 0.5)) pinchedInterp))) = Some d \<and>
           distance d = pinchDistance (pinchHand 0.03 0.5) \<and>
           threshold d = effectiveThreshold None (pinchHand 0.03 0.5) \<and>
           confidence d =
             min 1 (max 0 (1 - distance d / (2 * threshold d))
                    + min 0.3 (0.1 * real (length (filter h_pinch (gestureHistory pinchedInterp))))
                    + (if lastThreePinching (gestureHistory pinchedInterp) then 0.2 else 0))"
    using pinch_confidence_formula [OF v k]
    by (simp only: selectedHand_oneHand pinchedInterp_custom)
  then obtain d where d: "pinchDetails (state (snd (onResults 16 (oneHand (pinchHand 0.03 0.5)) pinchedInterp))) = Some d"
    "distance d = pinchDistance (pinchHand 0.03 0.5)"
    "threshold d = effectiveThreshold None (pinchHand 0.03 0.5)"
    "confidence d =
             min 1 (max 0 (1 - distance d / (2 * threshold d))
                    + min 0.3 (0.1 * real (length (filter h_pinch (gestureHistory pinchedInterp))))
                    + (if lastThreePinching (gestureHistory pinchedInterp) then 0.2 else 0))"
    by blast
  have "confidence d = 41 / 60"
    by (simp add: d(2,3,4) h e pinchDistance_pinchHand)
  with d(1) v k show ?thesis by blast
qed

section \<open>Clamping invariant\<close>

lemma extendedFingers_le: "extendedFingers fs \<le> 5"
  by (simp add: extendedFingers_def)

lemma g_confidence_range:
  "0.8 \<le> g_confidence (recognizeAdvancedGestures lms fs) \<and>
   g_confidence (recognizeAdvancedGestures lms fs) \<le> 0.95"
  by (simp add: recognizeAdvancedGestures_def)

lemma lerp_range:
  "0 \<le> c \<Longrightarrow> c \<le> 1 \<Longrightarrow> 0.8 \<le> g \<Longrightarrow> g \<le> 0.95 \<Longrightarrow>
   0 \<le> lerp c g 0.1 \<and> lerp c g 0.1 \<le> 1"
proof -
  assume a: "0 \<le> c" "c \<le> 1" "0.8 \<le> g" "g \<le> 0.95"
  have e: "lerp c g 0.1 = 0.9 * c + 0.1 * g"
    by (simp add: lerp_def field_simps)
  have b: "4 / 5 \<le> g" "g \<le> 19 / 20"
    using a by simp_all
  have "0 \<le> 0.9 * c + 0.1 * g" "0.9 * c + 0.1 * g \<le> 1"
    using a(1,2) b by simp_all
  then show ?thesis by (simp only: e)
qed

lemma calculateHandOpenness_range:
  "0 \<le> calculateHandOpenness lms fs \<and> calculateHandOpenness lms fs \<le> 1"
  by (simp add: calculateHandOpenness_def Let_def hypot_nonneg)

lemma p_confidence_range:
  "0 \<le> p_confidence (detectEnhancedPinch custom lms h) \<and>
   p_confidence (detectEnhancedPinch custom lms h) \<le> 1"
proof -
  have "0 \<le> max 0 a + min (3 / 10) (real n / 10) + (if b then 2 / 10 else 0)" for a :: real and n b
    by (intro add_nonneg_nonneg) simp_all
  then show ?thesis
    by (simp add: detectEnhancedPinch_def Let_def)
qed

lemma processHand_confidence:
  "\<exists>d. pinchDetails (state (processHand t lms hs b it)) = Some d \<and>
       confidence d = p_confidence (detectEnhancedPinch (customPinchThreshold it) lms (gestureHistory it))"
  by (simp add: processHand_def Let_def)

lemma outputsInRange_processHand:
  assumes "outputsInRange (state it)"
  shows "outputsInRange (state (processHand t lms hs b it))"
proof -
  have c: "0 \<le> gestureConfidence (state it)" "gestureConfidence (state it) \<le> 1"
    using assms by (simp_all add: outputsInRange_def)
  obtain d where d: "pinchDetails (state (processHand t lms hs b it)) = Some d"
    "confidence d = p_confidence (detectEnhancedPinch (customPinchThreshold it) lms (gestureHistory it))"
    using processHand_confidence by blast
  have 1: "0 \<le> openness (state (processHand t lms hs b it)) \<and>
           openness (state (processHand t lms hs b it)) \<le> 1"
    by (simp only: processHand_openness calculateHandOpenness_range)
  have 2: "0 \<le> gestureConfidence (state (processHand t lms hs b it)) \<and>
           gestureConfidence (state (processHand t lms hs b it)) \<le> 1"
    unfolding processHand_gestureConfidence
    using c g_confidence_range by (intro lerp_range) auto
  have 3: "0 \<le> confidence d \<and> confidence d \<le> 1"
    by (simp only: d(2) p_confidence_range)
  from 1 2 3 d(1) show ?thesis
    by (simp add: outputsInRange_def)
qed

lemma outputsInRange_stepFrame:
  "outputsInRange (state it) \<Longrightarrow> outputsInRange (state (stepFrame it f))"
  using frame_cases [of f]
  by (auto simp: stepFrame_valid stepFrame_empty stepFrame_short outputsInRange_processHand)
     (simp add: outputsInRange_def)

lemma outputsInRange_runFrames:
  "outputsInRange (state it) \<Longrightarrow> outputsInRange (state (runFrames it fs))"
  unfolding runFrames_def
  by (induction fs arbitrary: it) (simp_all add: outputsInRange_stepFrame)

lemma outputsInRange_initHandTracking:
  "outputsInRange (state (initHandTracking s c initialGestureState))"
  by (simp add: outputsInRange_def initHandTracking_def initialGestureState_def)

text \<open>
  C7: starting from the state \<^verbatim>\<open>initHandTracking\<close> sets up (gestureConfidence 0), after
  each frame of every sequence of valid-hand frames the outputs satisfy
  \<open>0 \<le> openness \<le> 1\<close>, \<open>0 \<le> gestureConfidence \<le> 1\<close> and \<open>0 \<le> pinch confidence \<le> 1\<close>; the
  classifier values the confidence is interpolated towards lie in \<open>[0.8, 0.95]\<close>.
\<close>

theorem outputs_clamped:
  assumes "list_all validFrame fs" and "n \<le> length fs"
  shows "outputsInRange (state (runFrames (initHandTracking s c initialGestureState) (take n fs))) \<and>
         (\<forall>lms fsts. 0.8 \<le> g_confidence (recognizeAdvancedGestures lms fsts) \<and>
                      g_confidence (recognizeAdvancedGestures lms fsts) \<le> 0.95)"
  using outputsInRange_initHandTracking g_confidence_range
  by (simp add: outputsInRange_runFrames)

lemma runFrames_single: "runFrames it [f] = stepFrame it f"
  by (simp add: runFrames_def)

theorem outputs_clamped_witness:
  "list_all validFrame [(0, oneHand (pinchHand 0.03 0.5))] \<and>
   (1::nat) \<le> length [(0::real, oneHand (pinchHand 0.03 0.5))] \<and>
   outputsInRange (state pinchedInterp) \<and>
   openness (state pinchedInterp) = 0 \<and>
   gestureConfidence (state pinchedInterp) = 0.09"
proof -
  have v: "list_all validFrame [(0, oneHand (pinchHand 0.03 0.5))]"
    by (simp add: validFrame_oneHand length_pinchHand)
  have n: "(1::nat) \<le> length [(0::real, oneHand (pinchHand 0.03 0.5))]"
    by simp
  have r: "runFrames (initHandTracking True None initialGestureState)
             (take 1 [(0, oneHand (pinchHand 0.03 0.5))]) = pinchedInterp"
    by (simp add: runFrames_single pinchedInterp_def startInterp_def)
  have o: "openness (state pinchedInterp) = 0"
    by (simp add: pinchedInterp_eq processHand_openness updateFingerStates_pinchHand
        calculateHandOpenness_def extendedFingers_none)
       (simp add: pinchHand_def pt_def hypot_zero_left)
  have g: "gestureConfidence (state pinchedInterp) = 0.09"
    by (simp add: pinchedInterp_eq processHand_gestureConfidence updateFingerStates_pinchHand
        recognizeAdvancedGestures_def extendedFingers_none startInterp_gestureConfidence lerp_def)
  from outputs_clamped [OF v n, of True None] have "outputsInRange (state pinchedInterp)"
    by (simp only: r)
  with v n o g show ?thesis by blast
qed

section \<open>Gesture history\<close>

lemma pushHistory_lastN:
  "length h \<le> 5 \<Longrightarrow> pushHistory e h = lastN 5 (h @ [e])"
proof (cases "length h = 5")
  case True
  then have "h \<noteq> []" by auto
  with True show ?thesis
    by (simp add: pushHistory_def lastN_def GESTURE_HISTORY_LENGTH_def Let_def drop_Suc)
next
  case False
  assume "length h \<le> 5"
  with False have "length h < 5" by simp
  then show ?thesis
    by (simp add: pushHistory_def lastN_def GESTURE_HISTORY_LENGTH_def Let_def)
qed

lemma length_lastN: "length (lastN n xs) = min n (length xs)"
  by (simp add: lastN_def)

lemma lastN_lastN_append: "lastN n (lastN n xs @ ys) = lastN n (xs @ ys)"
proof (cases "length xs \<le> n")
  case True
  then show ?thesis by (simp add: lastN_def)
next
  case False
  then have "length xs + length ys - (length xs - n + n) + (length xs - n)
               = length xs + length ys - n"
    by simp
  with False show ?thesis by (simp add: lastN_def)
qed

lemma length_pushHistory: "length h \<le> 5 \<Longrightarrow> length (pushHistory e h) \<le> 5"
  by (simp add: pushHistory_lastN length_lastN)

lemma stepFrame_history_valid:
  "validFrame f \<Longrightarrow>
   gestureHistory (stepFrame it f) = pushHistory (summaryOf (stepFrame it f)) (gestureHistory it)"
  by (simp add: stepFrame_valid processHand_gestureHistory validFrame_def)

lemma stepFrame_history_rejected:
  "emptyFrame f \<or> shortFrame f \<Longrightarrow> gestureHistory (stepFrame it f) = gestureHistory it"
  by (auto simp: stepFrame_empty stepFrame_short)

lemma stepFrame_history_bound:
  "length (gestureHistory it) \<le> 5 \<Longrightarrow> length (gestureHistory (stepFrame it f)) \<le> 5"
  using frame_cases [of f]
  by (auto simp: stepFrame_history_valid stepFrame_history_rejected length_pushHistory)

lemma runFrames_history_bound:
  "length (gestureHistory it) \<le> 5 \<Longrightarrow> length (gestureHistory (runFrames it fs)) \<le> 5"
  unfolding runFrames_def
  by (induction fs arbitrary: it) (simp_all add: stepFrame_history_bound)

lemma runFrames_Cons: "runFrames it (f # fs) = runFrames (stepFrame it f) fs"
  by (simp add: runFrames_def)

lemma runFrames_Nil: "runFrames it [] = it"
  by (simp add: runFrames_def)

lemma length_summaries: "length (summaries it fs) = length fs"
  by (induction fs arbitrary: it) simp_all

lemma summaries_nth:
  "i < length fs \<Longrightarrow> summaries it fs ! i = summaryOf (runFrames it (take (Suc i) fs))"
proof (induction fs arbitrary: it i)
  case Nil
  then show ?case by simp
next
  case (Cons f fs)
  show ?case
  proof (cases i)
    case 0
    then show ?thesis by (simp add: runFrames_Cons runFrames_Nil)
  next
    case (Suc j)
    with Cons.prems have "j < length fs" by simp
    from Cons.IH [OF this, of "stepFrame it f"] Suc show ?thesis
      by (simp add: runFrames_Cons)
  qed
qed

lemma runFrames_history_valid:
  "list_all validFrame fs \<Longrightarrow> length (gestureHistory it) \<le> 5 \<Longrightarrow>
   gestureHistory (runFrames it fs) = lastN 5 (gestureHistory it @ summaries it fs)"
proof (induction fs arbitrary: it)
  case Nil
  then show ?case by (simp add: runFrames_Nil lastN_def)
next
  case (Cons f fs)
  from Cons.prems have v: "validFrame f" and vs: "list_all validFrame fs"
    by simp_all
  have h: "gestureHistory (stepFrame it f) =
             lastN 5 (gestureHistory it @ [summaryOf (stepFrame it f)])"
    using v Cons.prems(2) by (simp add: stepFrame_history_valid pushHistory_lastN)
  then have "length (gestureHistory (stepFrame it f)) \<le> 5"
    by (simp add: length_lastN)
  from Cons.IH [OF vs this] show ?case
    by (simp add: runFrames_Cons h lastN_lastN_append)
qed

lemma runFrames_snoc: "runFrames it (fs @ [f]) = stepFrame (runFrames it fs) f"
  by (simp add: runFrames_def)

lemma stepFrame_lastGestureTime_valid:
  "validFrame f \<Longrightarrow> lastGestureTime (stepFrame it f) = fst f"
  by (simp add: stepFrame_valid processHand_lastGestureTime)

lemma stepFrame_lastGestureTime_rejected:
  "emptyFrame f \<or> shortFrame f \<Longrightarrow> lastGestureTime (stepFrame it f) = lastGestureTime it"
  by (auto simp: stepFrame_empty stepFrame_short)

lemma runFrames_lastGestureTime:
  "fs \<noteq> [] \<Longrightarrow> validFrame (last fs) \<Longrightarrow> lastGestureTime (runFrames it fs) = fst (last fs)"
  by (cases fs rule: rev_cases) (simp_all add: runFrames_snoc stepFrame_lastGestureTime_valid)

lemma six_frames_history:
  assumes v: "list_all validFrame gs" and n: "length gs = 6" and h: "length (gestureHistory it) \<le> 5"
  shows "gestureHistory (runFrames it gs) = drop 1 (summaries it gs)"
proof -
  have "gestureHistory (runFrames it gs) = lastN 5 (gestureHistory it @ summaries it gs)"
    using v h by (rule runFrames_history_valid)
  also have "\<dots> = drop (Suc (length (gestureHistory it))) (gestureHistory it @ summaries it gs)"
    by (simp add: lastN_def length_summaries n)
  also have "\<dots> = drop 1 (summaries it gs)"
    by simp
  finally show ?thesis .
qed

text \<open>
  C8: the history never holds more than 5 entries; after 6 consecutive valid-hand frames
  it holds exactly 5, the summaries of frames 2 to 6 in frame order (entry \<open>i\<close> is the
  summary left by frame \<open>i + 2\<close> and carries that frame's timestamp); and a frame with no
  hand or with fewer than 21 points appends nothing.
\<close>

theorem history_bounded_fifo:
  "length (gestureHistory (runFrames (initHandTracking s c st) fs)) \<le> 5 \<and>
   (list_all validFrame gs \<and> length gs = 6 \<and> length (gestureHistory it) \<le> 5 \<longrightarrow>
      length (gestureHistory (runFrames it gs)) = 5 \<and>
      (\<forall>i<5. gestureHistory (runFrames it gs) ! i = summaryOf (runFrames it (take (i + 2) gs)) \<and>
             h_timestamp (gestureHistory (runFrames it gs) ! i) = fst (gs ! (i + 1)))) \<and>
   (emptyFrame f \<or> shortFrame f \<longrightarrow> gestureHistory (stepFrame it f) = gestureHistory it)"
proof -
  have a: "length (gestureHistory (runFrames (initHandTracking s c st) fs)) \<le> 5"
    by (rule runFrames_history_bound) (simp add: initHandTracking_def)
  have b: "length (gestureHistory (runFrames it gs)) = 5 \<and>
      (\<forall>i<5. gestureHistory (runFrames it gs) ! i = summaryOf (runFrames it (take (i + 2) gs)) \<and>
             h_timestamp (gestureHistory (runFrames it gs) ! i) = fst (gs ! (i + 1)))"
    if v: "list_all validFrame gs" and n: "length gs = 6" and h: "length (gestureHistory it) \<le> 5"
  proof -
    have e: "gestureHistory (runFrames it gs) = drop 1 (summaries it gs)"
      using v n h by (rule six_frames_history)
    have l: "length (gestureHistory (runFrames it gs)) = 5"
      by (simp add: e length_summaries n)
    have "gestureHistory (runFrames it gs) ! i = summaryOf (runFrames it (take (i + 2) gs)) \<and>
          h_timestamp (gestureHistory (runFrames it gs) ! i) = fst (gs ! (i + 1))"
      if i: "i < 5" for i
    proof -
      have 1: "gestureHistory (runFrames it gs) ! i = summaryOf (runFrames it (take (i + 2) gs))"
        using i by (simp add: e length_summaries n summaries_nth)
      have t0: "take (i + 2) gs \<noteq> []"
        using i n by auto
      have "length (take (i + 2) gs) = i + 2"
        using i n by simp
      with t0 have "last (take (i + 2) gs) = take (i + 2) gs ! (i + 1)"
        by (simp add: last_conv_nth)
      with t0 have t: "take (i + 2) gs \<noteq> []" "last (take (i + 2) gs) = gs ! (i + 1)"
        by simp_all
      have "validFrame (gs ! (i + 1))"
        using v i n by (simp add: list_all_length)
      then have "lastGestureTime (runFrames it (take (i + 2) gs)) = fst (gs ! (i + 1))"
        using t by (simp add: runFrames_lastGestureTime)
      with 1 show ?thesis by (simp add: summaryOf_def)
    qed
    with l show ?thesis by blast
  qed
  have c: "emptyFrame f \<or> shortFrame f \<longrightarrow> gestureHistory (stepFrame it f) = gestureHistory it"
    using stepFrame_history_rejected by blast
  from a b c show ?thesis by blast
qed

lemma startInterp_history: "gestureHistory startInterp = []"
  by (simp add: startInterp_def initHandTracking_def)

theorem history_bounded_fifo_witness:
  "list_all validFrame sixFrames \<and> length sixFrames = 6 \<and>
   length (gestureHistory startInterp) \<le> 5 \<and>
   length (gestureHistory (runFrames startInterp sixFrames)) = 5 \<and>
   h_timestamp (gestureHistory (runFrames startInterp sixFrames) ! 0) = 16 \<and>
   h_timestamp (gestureHistory (runFrames startInterp sixFrames) ! 4) = 80 \<and>
   emptyFrame (96, noHands) \<and>
   gestureHistory (stepFrame pinchedInterp (96, noHands)) = [summaryOf pinchedInterp]"
proof -
  have v: "list_all validFrame sixFrames"
    by (simp add: sixFrames_def validFrame_oneHand length_pinchHand)
  have n: "length sixFrames = 6"
    by (simp add: sixFrames_def)
  have h: "length (gestureHistory startInterp) \<le> 5"
    by (simp add: startInterp_history)
  have e: "emptyFrame (96, noHands)"
    by (simp add: emptyFrame_def noHands_def)
  note w = history_bounded_fifo [of True None initialGestureState "[]" sixFrames startInterp
      "(96, noHands)"]
  from w v n h have l: "length (gestureHistory (runFrames startInterp sixFrames)) = 5"
    and t: "\<forall>i<5. h_timestamp (gestureHistory (runFrames startInterp sixFrames) ! i) = fst (sixFrames ! (i + 1))"
    by blast+
  from t have t0: "h_timestamp (gestureHistory (runFrames startInterp sixFrames) ! 0) = 16"
    and t4: "h_timestamp (gestureHistory (runFrames startInterp sixFrames) ! 4) = 80"
    by (simp_all add: sixFrames_def)
  from history_bounded_fifo [of True None initialGestureState "[]" sixFrames pinchedInterp
      "(96, noHands)"] e
  have "gestureHistory (stepFrame pinchedInterp (96, noHands)) = gestureHistory pinchedInterp"
    by blast
  then have r: "gestureHistory (stepFrame pinchedInterp (96, noHands)) = [summaryOf pinchedInterp]"
    by (simp add: pinchedInterp_history)
  from v n h l t0 t4 e r show ?thesis by blast
qed

section \<open>Hand velocity\<close>

lemma onResults_velocity:
  "validFrame (t, res) \<Longrightarrow>
   handVelocity (state (snd (onResults t res it))) =
     \<lparr>vx = (vx (position (state (snd (onResults t res it)))) - vx (position (state it)))
             / max 1 (t - lastGestureTime it) * 1000,
      vy = (vy (position (state (snd (onResults t res it)))) - vy (position (state it)))
             / max 1 (t - lastGestureTime it) * 1000\<rparr>"
  by (simp add: validFrame_def onResults_valid processHand_handVelocity)

lemma onResults_position:
  "validFrame (t, res) \<Longrightarrow>
   position (state (snd (onResults t res it))) =
     \<lparr>vx = lerp (vx (position (state it))) ((lm_x (selectedHand res ! 0) - 0.5) * 2) 0.8,
      vy = lerp (vy (position (state it))) (- (lm_y (selectedHand res ! 0) - 0.5) * 2) 0.8\<rparr>"
  by (simp add: validFrame_def onResults_valid processHand_position gestureSmoothing_def)

text \<open>
  C9: on a valid-hand frame, handVelocity is the change of the smoothed position divided
  by the time since the previous processed frame, floored at 1 ms, times 1000. The
  smoothed position is the previous one moved 0.8 of the way to the remapped wrist
  landmark, and the frame's time becomes the new reference. With 16 ms elapsed and the
  smoothed position going from (0, 0) to (0.08, 0), handVelocity.x is 5; with 0 ms (or
  less) elapsed the divisor is 1.
\<close>

theorem hand_velocity:
  assumes "validFrame (t, res)"
  shows "1 \<le> max 1 (t - lastGestureTime it) \<and>
         vx (handVelocity (state (snd (onResults t res it)))) =
           (vx (position (state (snd (onResults t res it)))) - vx (position (state it)))
             / max 1 (t - lastGestureTime it) * 1000 \<and>
         vy (handVelocity (state (snd (onResults t res it)))) =
           (vy (position (state (snd (onResults t res it)))) - vy (position (state it)))
             / max 1 (t - lastGestureTime it) * 1000 \<and>
         vx (position (state (snd (onResults t res it)))) =
           vx (position (state it)) + 0.8 * ((lm_x (selectedHand res ! 0) - 0.5) * 2 - vx (position (state it))) \<and>
         vy (position (state (snd (onResults t res it)))) =
           vy (position (state it)) + 0.8 * (- (lm_y (selectedHand res ! 0) - 0.5) * 2 - vy (position (state it))) \<and>
         lastGestureTime (snd (onResults t res it)) = t \<and>
         (t - lastGestureTime it = 16 \<and> position (state it) = \<lparr>vx = 0, vy = 0\<rparr> \<and>
          position (state (snd (onResults t res it))) = \<lparr>vx = 0.08, vy = 0\<rparr> \<longrightarrow>
            vx (handVelocity (state (snd (onResults t res it)))) = 5) \<and>
         (t - lastGestureTime it \<le> 0 \<longrightarrow>
            vx (handVelocity (state (snd (onResults t res it)))) =
              (vx (position (state (snd (onResults t res it)))) - vx (position (state it))) * 1000)"
proof -
  note vel = onResults_velocity [OF assms, of it]
  note pos = onResults_position [OF assms, of it]
  have a: "1 \<le> max 1 (t - lastGestureTime it)"
    by simp
  have b: "vx (handVelocity (state (snd (onResults t res it)))) =
           (vx (position (state (snd (onResults t res it)))) - vx (position (state it)))
             / max 1 (t - lastGestureTime it) * 1000"
    and c: "vy (handVelocity (state (snd (onResults t res it)))) =
           (vy (position (state (snd (onResults t res it)))) - vy (position (state it)))
             / max 1 (t - lastGestureTime it) * 1000"
    by (simp_all add: vel)
  have d: "vx (position (state (snd (onResults t res it)))) =
           vx (position (state it)) + 0.8 * ((lm_x (selectedHand res ! 0) - 0.5) * 2 - vx (position (state it)))"
    and e: "vy (position (state (snd (onResults t res it)))) =
           vy (position (state it)) + 0.8 * (- (lm_y (selectedHand res ! 0) - 0.5) * 2 - vy (position (state it)))"
    by (simp_all add: pos lerp_def)
  have f: "lastGestureTime (snd (onResults t res it)) = t"
    using assms by (simp add: validFrame_def onResults_valid processHand_lastGestureTime)
  have g: "vx (handVelocity (state (snd (onResults t res it)))) = 5"
    if "t - lastGestureTime it = 16" "position (state it) = \<lparr>vx = 0, vy = 0\<rparr>"
      "position (state (snd (onResults t res it))) = \<lparr>vx = 0.08, vy = 0\<rparr>"
    by (simp add: b that)
  have h: "vx (handVelocity (state (snd (onResults t res it)))) =
              (vx (position (state (snd (onResults t res it)))) - vx (position (state it))) * 1000"
    if "t - lastGestureTime it \<le> 0"
    using that by (simp add: b max_def)
  from a b c d e f g h show ?thesis by blast
qed

lemma startInterp_position: "position (state startInterp) = \<lparr>vx = 0, vy = 0\<rparr>"
  by (simp add: startInterp_def initHandTracking_def initialGestureState_def)

lemma startInterp_lastGestureTime: "lastGestureTime startInterp = 0"
  by (simp add: startInterp_def initHandTracking_def)

theorem hand_velocity_witness:
  "validFrame (16, oneHand (pinchHand 0.03 0.55)) \<and>
   16 - lastGestureTime startInterp = 16 \<and>
   position (state startInterp) = \<lparr>vx = 0, vy = 0\<rparr> \<and>
   position (state (snd (onResults 16 (oneHand (pinchHand 0.03 0.55)) startInterp))) = \<lparr>vx = 0.08, vy = 0\<rparr> \<and>
   vx (handVelocity (state (snd (onResults 16 (oneHand (pinchHand 0.03 0.55)) startInterp)))) = 5 \<and>
   validFrame (0, oneHand (pinchHand 0.03 0.55)) \<and>
   vx (handVelocity (state (snd (onResults 0 (oneHand (pinchHand 0.03 0.55)) startInterp)))) = 80"
proof -
  have v: "validFrame (16, oneHand (pinchHand 0.03 0.55))"
    and v0: "validFrame (0, oneHand (pinchHand 0.03 0.55))"
    by (simp_all add: validFrame_oneHand length_pinchHand)
  have w: "pinchHand a b ! 0 = pt b 0.5" for a b
    by (simp add: pinchHand_def)
  have dt: "16 - lastGestureTime startInterp = 16"
    by (simp add: startInterp_lastGestureTime)
  note h = hand_velocity [OF v, of startInterp]
  from h have "vx (position (state (snd (onResults 16 (oneHand (pinchHand 0.03 0.55)) startInterp)))) =
           vx (position (state startInterp))
             + 0.8 * ((lm_x (selectedHand (oneHand (pinchHand 0.03 0.55)) ! 0) - 0.5) * 2 - vx (position (state startInterp)))"
    and "vy (position (state (snd (onResults 16 (oneHand (pinchHand 0.03 0.55)) startInterp)))) =
           vy (position (state startInterp))
             + 0.8 * (- (lm_y (selectedHand (oneHand (pinchHand 0.03 0.55)) ! 0) - 0.5) * 2 - vy (position (state startInterp)))"
    by blast+
  then have p: "position (state (snd (onResults 16 (oneHand (pinchHand 0.03 0.55)) startInterp))) = \<lparr>vx = 0.08, vy = 0\<rparr>"
    by (simp add: selectedHand_oneHand w pt_def startInterp_position)
  from h dt startInterp_position p
  have x: "vx (handVelocity (state (snd (onResults 16 (oneHand (pinchHand 0.03 0.55)) startInterp)))) = 5"
    by blast
  note h0 = hand_velocity [OF v0, of startInterp]
  have "0 - lastGestureTime startInterp \<le> 0"
    by (simp add: startInterp_lastGestureTime)
  with h0 have "vx (handVelocity (state (snd (onResults 0 (oneHand (pinchHand 0.03 0.55)) startInterp)))) =
      (vx (position (state (snd (onResults 0 (oneHand (pinchHand 0.03 0.55)) startInterp))))
        - vx (position (state startInterp))) * 1000"
    by blast
  moreover from h0 have "vx (position (state (snd (onResults 0 (oneHand (pinchHand 0.03 0.55)) startInterp)))) =
           vx (position (state startInterp))
             + 0.8 * ((lm_x (selectedHand (oneHand (pinchHand 0.03 0.55)) ! 0) - 0.5) * 2 - vx (position (state startInterp)))"
    by blast
  ultimately have y: "vx (handVelocity (state (snd (onResults 0 (oneHand (pinchHand 0.03 0.55)) startInterp)))) = 80"
    by (simp add: selectedHand_oneHand w pt_def startInterp_position)
  from v dt startInterp_position p x v0 y show ?thesis by blast
qed

end
